theory Spec2Isabelle
  imports
    Main
    "HOL-Library.Sublist"
    "HOL-Library.Multiset"
    "HOL-Library.Char_ord"
    "HOL-Library.List_Lexorder"
    "HOL-Library.Product_Lexorder"
begin

section \<open>Papyrus Notes API: a shallow embedding of main.py\<close>

text \<open>
  The handlers of \<^verbatim>\<open>main.py\<close> are translated one by one. A Python exception is a
  value: a function that may raise returns \<open>exception + 'a\<close> (\<open>Inl\<close> carries the
  text \<^verbatim>\<open>str(e)\<close> of the exception), and a handler whose \<^verbatim>\<open>try\<close> block can also
  raise \<^verbatim>\<open>HTTPException\<close> returns \<open>exn + 'a\<close>. The process-wide handle
  \<^verbatim>\<open>db\<close> is a \<open>store option\<close> that every handler receives and, where it writes,
  returns.
\<close>

subsection \<open>Values, documents and exceptions\<close>

text \<open>
  The values a stored field or a JSON payload can hold: null, booleans, integers,
  strings, arrays, the store's ObjectId (its 24 lower-case hex digits) and a datetime
  (an instant on an integer time line). Floating-point numbers and nested objects are
  not modelled. A \<open>string\<close> holds one \<open>char\<close> for each character of the Python
  text, so the model covers text whose characters fit a \<open>char\<close>.
\<close>

datatype val =
    VNone
  | VBool bool
  | VInt int
  | VStr string
  | VList "val list"
  | VOid string
  | VDate int

type_synonym exception = string

datatype exn =
    HTTPException nat string
  | Exception exception

text \<open>
  A stored document: its store-assigned \<^verbatim>\<open>_id\<close>, and the other top-level fields
  as a dictionary. \<open>doc_get\<close> is \<^verbatim>\<open>doc.get(key)\<close>, \<open>get_default\<close> is
  \<^verbatim>\<open>doc.get(key, default)\<close>.
\<close>

record doc =
  oid :: string
  items :: "string \<rightharpoonup> val"

definition doc_get :: "doc \<Rightarrow> string \<Rightarrow> val option" where
  "doc_get d k = (if k = ''_id'' then Some (VOid (oid d)) else items d k)"

definition get_default :: "doc \<Rightarrow> string \<Rightarrow> val \<Rightarrow> val" where
  "get_default d k dflt = (case doc_get d k of None \<Rightarrow> dflt | Some v \<Rightarrow> v)"

subsection \<open>The document store\<close>

text \<open>
  The external database behind \<^verbatim>\<open>db\<close>: the documents of the collection
  \<^verbatim>\<open>note\<close> in their natural order, the names of its collections, a fault (when
  \<open>Some msg\<close>, the server cannot be reached and every operation raises an exception
  with text \<open>msg\<close>), and the server's regular-expression engine, which compiles a
  pattern and its options to a matcher, or rejects the pattern (\<open>None\<close>).
\<close>

record store =
  note_collection :: "doc list"
  collection_names :: "string list"
  fault :: "string option"
  regex :: "string \<Rightarrow> string \<Rightarrow> (string \<Rightarrow> bool) option"

definition list_collection_names :: "store \<Rightarrow> exception + string list" where
  "list_collection_names s =
     (case fault s of Some msg \<Rightarrow> Inl msg | None \<Rightarrow> Inr (collection_names s))"

subsection \<open>GET /test\<close>

text \<open>
  The two marks of the status strings are the UTF-8 bytes of U+2705 and U+274C.
\<close>

definition check_mark :: string where
  "check_mark = [CHR 0xE2, CHR 0x9C, CHR 0x85]"

definition cross_mark :: string where
  "cross_mark = [CHR 0xE2, CHR 0x9D, CHR 0x8C]"

record test_response =
  backend :: string
  database :: string
  collections :: "string list option"

text \<open>
  \<^verbatim>\<open>test_database\<close>: the \<^verbatim>\<open>try\<close> block sets the field \<^verbatim>\<open>database\<close> before it
  calls \<^verbatim>\<open>list_collection_names\<close>; the handler of \<^verbatim>\<open>except Exception as e\<close>
  overwrites it with the first 120 characters of \<^verbatim>\<open>str(e)\<close>. \<open>Inl\<close> would be an
  exception leaving the function.
\<close>

definition test_database :: "store option \<Rightarrow> exception + test_response" where
  "test_database db =
     (let response = \<lparr>backend = check_mark @ '' Running'',
                      database = cross_mark @ '' Not Available'',
                      collections = None\<rparr>
      in case db of
           Some s \<Rightarrow>
             (let response = response\<lparr>database := check_mark @ '' Connected''\<rparr>
              in case list_collection_names s of
                   Inr names \<Rightarrow> Inr (response\<lparr>collections := Some names\<rparr>)
                 | Inl e \<Rightarrow> Inr (response\<lparr>database := cross_mark @ '' Error: '' @ take 120 e\<rparr>))
         | None \<Rightarrow> Inr (response\<lparr>database := cross_mark @ '' Not Connected''\<rparr>))"

subsection \<open>Queries of the store\<close>

text \<open>
  The filter documents that \<^verbatim>\<open>main.py\<close> sends: a filter is a dictionary, here the
  list of its entries. \<open>Field k c\<close> is the entry \<^verbatim>\<open>k: c\<close>, where \<open>Eq v\<close> is a
  plain value, \<open>In vs\<close> is \<^verbatim>\<open>{"$in": vs}\<close> and \<open>Regex p opts\<close> is
  \<^verbatim>\<open>{"$regex": p, "$options": opts}\<close>; \<open>Or cs\<close> is the entry \<^verbatim>\<open>"$or": cs\<close>, each
  element of \<open>cs\<close> a dictionary of field conditions.
\<close>

datatype cond = Eq val | In "val list" | Regex string string

datatype entry = Field string cond | Or "(string \<times> cond) list list"

type_synonym filter = "entry list"

text \<open>
  A pattern without regular-expression metacharacters, made of ASCII characters,
  matches exactly its own text; with the option \<^verbatim>\<open>i\<close> letters match in either case.
  Every other pattern is left to the store's engine.
\<close>

definition regex_metachars :: "char list" where
  "regex_metachars =
     [CHR 0x5C, CHR ''^'', CHR ''$'', CHR ''.'', CHR ''|'', CHR ''?'', CHR ''*'', CHR ''+'',
      CHR ''('', CHR '')'', CHR ''['', CHR '']'', CHR ''{'', CHR ''}'']"

definition plain_pattern :: "string \<Rightarrow> bool" where
  "plain_pattern p =
     list_all (\<lambda>c. c \<noteq> CHR 0x00 \<and> c < CHR 0x80 \<and> \<not> List.member regex_metachars c) p"

definition lower_char :: "char \<Rightarrow> char" where
  "lower_char c =
     (case map_of (zip ''ABCDEFGHIJKLMNOPQRSTUVWXYZ'' ''abcdefghijklmnopqrstuvwxyz'') c of
        None \<Rightarrow> c
      | Some l \<Rightarrow> l)"

definition lower :: "string \<Rightarrow> string" where
  "lower s = map lower_char s"

definition compile_regex :: "store \<Rightarrow> string \<Rightarrow> string \<Rightarrow> (string \<Rightarrow> bool) option" where
  "compile_regex s p opts =
     (if plain_pattern p \<and> opts = ''i'' then Some (\<lambda>t. sublist (lower p) (lower t))
      else regex s p opts)"

text \<open>
  How the store matches one field against a condition. A plain value matches a
  field equal to it and an array field holding it, and null also matches a missing
  field; \<^verbatim>\<open>$in\<close> matches when one of its values does; a regular expression matches
  a string field it finds a match in, and an array field holding such a string.
\<close>

definition eq_match :: "val \<Rightarrow> val option \<Rightarrow> bool" where
  "eq_match v fv =
     (case fv of
        None \<Rightarrow> v = VNone
      | Some x \<Rightarrow> x = v \<or> (case x of VList xs \<Rightarrow> List.member xs v | _ \<Rightarrow> False))"

definition regex_match :: "(string \<Rightarrow> bool) \<Rightarrow> val option \<Rightarrow> bool" where
  "regex_match m fv =
     (case fv of
        Some (VStr t) \<Rightarrow> m t
      | Some (VList xs) \<Rightarrow> list_ex (\<lambda>x. case x of VStr t \<Rightarrow> m t | _ \<Rightarrow> False) xs
      | _ \<Rightarrow> False)"

definition invalid_regex :: exception where
  "invalid_regex = ''Regular expression is invalid''"

definition compile_cond :: "store \<Rightarrow> cond \<Rightarrow> exception + (val option \<Rightarrow> bool)" where
  "compile_cond s c =
     (case c of
        Eq v \<Rightarrow> Inr (eq_match v)
      | In vs \<Rightarrow> Inr (\<lambda>fv. list_ex (\<lambda>v. eq_match v fv) vs)
      | Regex p opts \<Rightarrow>
          (case compile_regex s p opts of
             None \<Rightarrow> Inl invalid_regex
           | Some m \<Rightarrow> Inr (regex_match m)))"

definition compile_field :: "store \<Rightarrow> string \<Rightarrow> cond \<Rightarrow> exception + (doc \<Rightarrow> bool)" where
  "compile_field s k c =
     (case compile_cond s c of Inl e \<Rightarrow> Inl e | Inr m \<Rightarrow> Inr (\<lambda>d. m (doc_get d k)))"

text \<open>All predicates of a list, or the first exception.\<close>

fun collect :: "(exception + 'a) list \<Rightarrow> exception + 'a list" where
  "collect [] = Inr []"
| "collect (Inl e # rs) = Inl e"
| "collect (Inr x # rs) = (case collect rs of Inl e \<Rightarrow> Inl e | Inr xs \<Rightarrow> Inr (x # xs))"

definition compile_clause :: "store \<Rightarrow> (string \<times> cond) list \<Rightarrow> exception + (doc \<Rightarrow> bool)" where
  "compile_clause s kcs =
     (case collect (map (\<lambda>(k, c). compile_field s k c) kcs) of
        Inl e \<Rightarrow> Inl e
      | Inr ps \<Rightarrow> Inr (\<lambda>d. list_all (\<lambda>p. p d) ps))"

definition compile_entry :: "store \<Rightarrow> entry \<Rightarrow> exception + (doc \<Rightarrow> bool)" where
  "compile_entry s e =
     (case e of
        Field k c \<Rightarrow> compile_field s k c
      | Or cs \<Rightarrow>
          (if cs = [] then Inl ''$or must be a nonempty array''
           else case collect (map (compile_clause s) cs) of
                  Inl e \<Rightarrow> Inl e
                | Inr ps \<Rightarrow> Inr (\<lambda>d. list_ex (\<lambda>p. p d) ps)))"

definition compile_filter :: "store \<Rightarrow> filter \<Rightarrow> exception + (doc \<Rightarrow> bool)" where
  "compile_filter s f =
     (case collect (map (compile_entry s) f) of
        Inl e \<Rightarrow> Inl e
      | Inr ps \<Rightarrow> Inr (\<lambda>d. list_all (\<lambda>p. p d) ps))"

text \<open>
  \<^verbatim>\<open>find\<close> (here \<open>find_docs\<close>), \<^verbatim>\<open>delete_one\<close> and \<^verbatim>\<open>update_one\<close> of the collection \<^verbatim>\<open>note\<close>.
  \<open>delete_one\<close> removes the first matching document and reports
  \<^verbatim>\<open>deleted_count\<close>; \<open>update_one\<close> applies \<^verbatim>\<open>$set\<close> to the first matching
  document, a top-level overwrite of the fields named by the payload, and reports
  \<^verbatim>\<open>matched_count\<close>. The store refuses to change \<^verbatim>\<open>_id\<close>. Field names are
  taken as names of top-level fields: a name with a dot, which the store reads as a
  path into a nested document, is not modelled.
\<close>

definition find_docs :: "store \<Rightarrow> filter \<Rightarrow> exception + doc list" where
  "find_docs s f =
     (case fault s of
        Some msg \<Rightarrow> Inl msg
      | None \<Rightarrow>
          (case compile_filter s f of
             Inl e \<Rightarrow> Inl e
           | Inr p \<Rightarrow> Inr (filter p (note_collection s))))"

fun remove_first :: "('a \<Rightarrow> bool) \<Rightarrow> 'a list \<Rightarrow> 'a list" where
  "remove_first p [] = []"
| "remove_first p (x # xs) = (if p x then xs else x # remove_first p xs)"

fun update_first :: "('a \<Rightarrow> bool) \<Rightarrow> ('a \<Rightarrow> 'a) \<Rightarrow> 'a list \<Rightarrow> 'a list" where
  "update_first p g [] = []"
| "update_first p g (x # xs) = (if p x then g x # xs else x # update_first p g xs)"

definition delete_one :: "store \<Rightarrow> filter \<Rightarrow> exception + nat \<times> store" where
  "delete_one s f =
     (case fault s of
        Some msg \<Rightarrow> Inl msg
      | None \<Rightarrow>
          (case compile_filter s f of
             Inl e \<Rightarrow> Inl e
           | Inr p \<Rightarrow>
               (if list_ex p (note_collection s)
                then Inr (1, s\<lparr>note_collection := remove_first p (note_collection s)\<rparr>)
                else Inr (0, s))))"

definition immutable_id :: exception where
  "immutable_id = ''Performing an update on the path _id would modify the immutable field _id''"

definition set_fields :: "(string \<rightharpoonup> val) \<Rightarrow> doc \<Rightarrow> doc" where
  "set_fields payload d = d\<lparr>items := items d ++ payload(''_id'' := None)\<rparr>"

definition changes_id :: "(string \<rightharpoonup> val) \<Rightarrow> doc \<Rightarrow> bool" where
  "changes_id payload d =
     (case payload ''_id'' of None \<Rightarrow> False | Some v \<Rightarrow> v \<noteq> VOid (oid d))"

definition update_one :: "store \<Rightarrow> filter \<Rightarrow> (string \<rightharpoonup> val) \<Rightarrow> exception + nat \<times> store" where
  "update_one s f payload =
     (case fault s of
        Some msg \<Rightarrow> Inl msg
      | None \<Rightarrow>
          (case compile_filter s f of
             Inl e \<Rightarrow> Inl e
           | Inr p \<Rightarrow>
               (case List.find p (note_collection s) of
                  None \<Rightarrow> Inr (0, s)
                | Some d \<Rightarrow>
                    (if changes_id payload d then Inl immutable_id
                     else Inr (1, s\<lparr>note_collection :=
                                      update_first p (set_fields payload) (note_collection s)\<rparr>)))))"

text \<open>
  \<^verbatim>\<open>ObjectId(note_id)\<close> of the bson library: a string of 24 hexadecimal digits is
  an identifier (its digits in lower case), any other string raises
  \<^verbatim>\<open>InvalidId\<close>.
\<close>

definition is_hex_digit :: "char \<Rightarrow> bool" where
  "is_hex_digit c = List.member ''0123456789abcdefABCDEF'' c"

definition invalid_id :: "string \<Rightarrow> exception" where
  "invalid_id s = s @ '' is not a valid ObjectId, it must be a 12-byte input or a 24-character hex string''"

definition ObjectId :: "string \<Rightarrow> exception + string" where
  "ObjectId s =
     (if length s = 24 \<and> list_all is_hex_digit s then Inr (lower s) else Inl (invalid_id s))"

text \<open>
  Modelled from the spec: \<^verbatim>\<open>get_documents\<close> of the module \<^verbatim>\<open>database\<close>, which is
  not among the sources. It reads, from the named collection, the documents that
  match the filter (section 4.1: the full set of matching notes, and any store
  failure surfaces as a failure); without a database handle it raises.
\<close>

definition get_documents :: "store option \<Rightarrow> string \<Rightarrow> filter \<Rightarrow> exception + doc list" where
  "get_documents db collection_name flt =
     (case db of
        None \<Rightarrow> Inl ''Database not available''
      | Some s \<Rightarrow>
          (if collection_name = ''note'' then find_docs s flt
           else case fault s of Some msg \<Rightarrow> Inl msg | None \<Rightarrow> Inr []))"

subsection \<open>Python values: truth, equality and order\<close>

text \<open>
  \<open>truthy\<close> is the truth value that \<^verbatim>\<open>not\<close> and \<^verbatim>\<open>if\<close> take of a value,
  \<open>py_eq\<close> is \<^verbatim>\<open>==\<close> (a boolean equals the integer 0 or 1), and \<open>py_lt\<close> is
  \<^verbatim>\<open><\<close>, which raises \<^verbatim>\<open>TypeError\<close> between values of different kinds and on
  \<^verbatim>\<open>None\<close>. Numbers are ordered among themselves, as are strings, datetimes and
  ObjectIds. Two lists are not ordered by the model (Python compares them element by
  element): \<open>py_lt\<close> raises on them.
\<close>

fun truthy :: "val \<Rightarrow> bool" where
  "truthy VNone = False"
| "truthy (VBool b) = b"
| "truthy (VInt i) = (i \<noteq> 0)"
| "truthy (VStr s) = (s \<noteq> [])"
| "truthy (VList xs) = (xs \<noteq> [])"
| "truthy (VOid h) = True"
| "truthy (VDate t) = True"

fun kind :: "val \<Rightarrow> nat" where
  "kind (VBool b) = 0"
| "kind (VInt i) = 0"
| "kind (VStr s) = 1"
| "kind (VDate t) = 2"
| "kind (VOid h) = 3"
| "kind VNone = 4"
| "kind (VList xs) = 5"

fun number :: "val \<Rightarrow> int" where
  "number (VBool b) = (if b then 1 else 0)"
| "number (VInt i) = i"
| "number (VDate t) = t"
| "number v = 0"

fun text_of :: "val \<Rightarrow> string" where
  "text_of (VStr s) = s"
| "text_of (VOid h) = h"
| "text_of v = []"

fun py_eq :: "val \<Rightarrow> val \<Rightarrow> bool" where
  "py_eq (VList xs) (VList ys) = list_all2 py_eq xs ys"
| "py_eq (VList xs) v = False"
| "py_eq v (VList ys) = False"
| "py_eq a b = (kind a = kind b \<and> number a = number b \<and> text_of a = text_of b)"

definition not_supported :: exception where
  "not_supported = ''< not supported between these instances''"

definition py_lt :: "val \<Rightarrow> val \<Rightarrow> exception + bool" where
  "py_lt a b =
     (if kind a = kind b \<and> kind a < 4
      then Inr (number a < number b \<or> (number a = number b \<and> text_of a < text_of b))
      else Inl not_supported)"

text \<open>
  \<^verbatim>\<open><\<close> on the pairs that the sort key builds: the first components are compared
  when they differ, otherwise the second ones are, with \<^verbatim>\<open>==\<close> first.
\<close>

definition tuple_lt :: "bool \<times> val \<Rightarrow> bool \<times> val \<Rightarrow> exception + bool" where
  "tuple_lt x y =
     (if fst x \<noteq> fst y then Inr (fst x < fst y)
      else if py_eq (snd x) (snd y) then Inr False
      else py_lt (snd x) (snd y))"

text \<open>
  \<^verbatim>\<open>docs.sort(key=...)\<close>: Python's sort is stable and ascending in \<^verbatim>\<open><\<close> on the
  keys, and an exception of a comparison leaves the sort. The model raises when two
  keys of the list cannot be compared, and otherwise sorts stably by \<open>rank\<close>, which
  orders comparable keys as \<open>tuple_lt\<close> does.
\<close>

definition comparable :: "bool \<times> val \<Rightarrow> bool \<times> val \<Rightarrow> bool" where
  "comparable x y = (case tuple_lt x y of Inl e \<Rightarrow> False | Inr b \<Rightarrow> True)"

definition rank :: "bool \<times> val \<Rightarrow> bool \<times> nat \<times> int \<times> string" where
  "rank x = (fst x, kind (snd x), number (snd x), text_of (snd x))"

definition py_sort :: "('a \<Rightarrow> bool \<times> val) \<Rightarrow> 'a list \<Rightarrow> exception + 'a list" where
  "py_sort key xs =
     (if list_all (\<lambda>x. list_all (\<lambda>y. comparable (key x) (key y)) xs) xs
      then Inr (sort_key (\<lambda>x. rank (key x)) xs)
      else Inl not_supported)"

subsection \<open>Notes\<close>

text \<open>
  Modelled from the spec: the class \<^verbatim>\<open>Note\<close> of the module \<^verbatim>\<open>schemas\<close>, which is not
  among the sources (section 3: \<^verbatim>\<open>title\<close> and \<^verbatim>\<open>content\<close> text, \<^verbatim>\<open>tags\<close> text
  labels, \<^verbatim>\<open>color\<close> and \<^verbatim>\<open>mood\<close> optional text, \<^verbatim>\<open>is_pinned\<close> a boolean).
  \<^verbatim>\<open>NoteOut\<close> adds \<^verbatim>\<open>id: str\<close>. Building a \<^verbatim>\<open>NoteOut\<close> validates each argument
  against the type of its field; a value of another type raises a validation error.
\<close>

record NoteOut =
  id' :: string
  title :: string
  content :: string
  tags :: "string list"
  color :: "string option"
  is_pinned :: bool
  mood :: "string option"

definition validation_error :: exception where
  "validation_error = ''validation error for NoteOut''"

fun as_str :: "val \<Rightarrow> string option" where
  "as_str (VStr s) = Some s"
| "as_str v = None"

fun as_bool :: "val \<Rightarrow> bool option" where
  "as_bool (VBool b) = Some b"
| "as_bool v = None"

fun as_optional_str :: "val \<Rightarrow> string option option" where
  "as_optional_str VNone = Some None"
| "as_optional_str (VStr s) = Some (Some s)"
| "as_optional_str v = None"

fun as_str_list :: "val \<Rightarrow> string list option" where
  "as_str_list (VList xs) =
     (if list_all (\<lambda>x. as_str x \<noteq> None) xs then Some (map text_of xs) else None)"
| "as_str_list v = None"

definition make_NoteOut :: "string \<Rightarrow> val \<Rightarrow> val \<Rightarrow> val \<Rightarrow> val \<Rightarrow> val \<Rightarrow> val \<Rightarrow> exception + NoteOut" where
  "make_NoteOut i t c ts col p m =
     (case (as_str t, as_str c, as_str_list ts, as_optional_str col, as_bool p, as_optional_str m) of
        (Some t', Some c', Some ts', Some col', Some p', Some m') \<Rightarrow>
          Inr \<lparr>id' = i, title = t', content = c', tags = ts', color = col', is_pinned = p', mood = m'\<rparr>
      | _ \<Rightarrow> Inl validation_error)"

text \<open>
  \<^verbatim>\<open>serialize_note\<close>. \<^verbatim>\<open>str(doc.get("_id"))\<close> is the hex text of the document's
  ObjectId; \<^verbatim>\<open>doc.get("color")\<close> is \<^verbatim>\<open>None\<close> for a missing key.
\<close>

definition serialize_note :: "doc \<Rightarrow> exception + NoteOut" where
  "serialize_note d =
     make_NoteOut (oid d)
       (get_default d ''title'' (VStr ''''))
       (get_default d ''content'' (VStr ''''))
       (get_default d ''tags'' (VList []))
       (get_default d ''color'' VNone)
       (get_default d ''is_pinned'' (VBool False))
       (get_default d ''mood'' VNone)"

subsection \<open>GET /api/notes\<close>

text \<open>
  \<^verbatim>\<open>if tag:\<close> and \<^verbatim>\<open>if q:\<close> test the truth of an optional string, false for
  \<^verbatim>\<open>None\<close> and for the empty string; \<^verbatim>\<open>pinned\<close> is tested against \<^verbatim>\<open>None\<close>.
\<close>

definition filter_dict :: "string option \<Rightarrow> string option \<Rightarrow> bool option \<Rightarrow> filter" where
  "filter_dict tag q pinned =
     (case tag of
        Some t \<Rightarrow> if t \<noteq> [] then [Field ''tags'' (In [VStr t])] else []
      | None \<Rightarrow> []) @
     (case pinned of
        Some p \<Rightarrow> [Field ''is_pinned'' (Eq (VBool p))]
      | None \<Rightarrow> []) @
     (case q of
        Some r \<Rightarrow>
          if r \<noteq> []
          then [Or [[(''title'', Regex r ''i'')], [(''content'', Regex r ''i'')]]]
          else []
      | None \<Rightarrow> [])"

definition note_key :: "doc \<Rightarrow> bool \<times> val" where
  "note_key d =
     (\<not> truthy (get_default d ''is_pinned'' (VBool False)), get_default d ''created_at'' (VInt 0))"

definition list_notes_try :: "store option \<Rightarrow> string option \<Rightarrow> string option \<Rightarrow> bool option \<Rightarrow> exception + NoteOut list" where
  "list_notes_try db tag q pinned =
     (case get_documents db ''note'' (filter_dict tag q pinned) of
        Inl e \<Rightarrow> Inl e
      | Inr docs \<Rightarrow>
          (case py_sort note_key docs of
             Inl e \<Rightarrow> Inl e
           | Inr docs' \<Rightarrow> collect (map serialize_note docs')))"

definition list_notes :: "store option \<Rightarrow> string option \<Rightarrow> string option \<Rightarrow> bool option \<Rightarrow> exn + NoteOut list" where
  "list_notes db tag q pinned =
     (case list_notes_try db tag q pinned of
        Inl e \<Rightarrow> Inl (HTTPException 500 e)
      | Inr notes \<Rightarrow> Inr notes)"

subsection \<open>DELETE and PATCH /api/notes/{note_id}\<close>

record ok_response =
  ok :: bool

text \<open>
  The \<^verbatim>\<open>try\<close> block of \<^verbatim>\<open>delete_note\<close>, then its handlers: an \<^verbatim>\<open>HTTPException\<close>
  is raised again, any other exception becomes status 500 with its text. The
  argument \<^verbatim>\<open>ObjectId(note_id)\<close> is evaluated before \<^verbatim>\<open>delete_one\<close> is called.
\<close>

definition delete_note_try :: "store option \<Rightarrow> string \<Rightarrow> (exn + ok_response) \<times> store option" where
  "delete_note_try db note_id =
     (case db of
        None \<Rightarrow> (Inl (Exception ''Database not available''), db)
      | Some s \<Rightarrow>
          (case ObjectId note_id of
             Inl e \<Rightarrow> (Inl (Exception e), db)
           | Inr i \<Rightarrow>
               (case delete_one s [Field ''_id'' (Eq (VOid i))] of
                  Inl e \<Rightarrow> (Inl (Exception e), db)
                | Inr (deleted_count, s') \<Rightarrow>
                    (if deleted_count = 0
                     then (Inl (HTTPException 404 ''Note not found''), Some s')
                     else (Inr \<lparr>ok = True\<rparr>, Some s')))))"

definition handle :: "(exn + 'a) \<times> store option \<Rightarrow> (exn + 'a) \<times> store option" where
  "handle r =
     (case r of
        (Inl (HTTPException code detail), db) \<Rightarrow> (Inl (HTTPException code detail), db)
      | (Inl (Exception e), db) \<Rightarrow> (Inl (HTTPException 500 e), db)
      | (Inr x, db) \<Rightarrow> (Inr x, db))"

definition delete_note :: "store option \<Rightarrow> string \<Rightarrow> (exn + ok_response) \<times> store option" where
  "delete_note db note_id = handle (delete_note_try db note_id)"

text \<open>
  \<^verbatim>\<open>update_note\<close>: \<^verbatim>\<open>payload.pop("_id", None)\<close>, then
  \<^verbatim>\<open>payload["updated_at"] = payload.get("updated_at")\<close>, then \<^verbatim>\<open>update_one\<close> with
  \<^verbatim>\<open>{"$set": payload}\<close>.
\<close>

definition prepare_payload :: "(string \<rightharpoonup> val) \<Rightarrow> (string \<rightharpoonup> val)" where
  "prepare_payload payload =
     (let payload = payload(''_id'' := None)
      in payload(''updated_at'' \<mapsto>
           (case payload ''updated_at'' of None \<Rightarrow> VNone | Some v \<Rightarrow> v)))"

definition update_note_try :: "store option \<Rightarrow> string \<Rightarrow> (string \<rightharpoonup> val) \<Rightarrow> (exn + ok_response) \<times> store option" where
  "update_note_try db note_id payload =
     (case db of
        None \<Rightarrow> (Inl (Exception ''Database not available''), db)
      | Some s \<Rightarrow>
          (let payload = prepare_payload payload
           in case ObjectId note_id of
                Inl e \<Rightarrow> (Inl (Exception e), db)
              | Inr i \<Rightarrow>
                  (case update_one s [Field ''_id'' (Eq (VOid i))] payload of
                     Inl e \<Rightarrow> (Inl (Exception e), db)
                   | Inr (matched_count, s') \<Rightarrow>
                       (if matched_count = 0
                        then (Inl (HTTPException 404 ''Note not found''), Some s')
                        else (Inr \<lparr>ok = True\<rparr>, Some s')))))"

definition update_note :: "store option \<Rightarrow> string \<Rightarrow> (string \<rightharpoonup> val) \<Rightarrow> (exn + ok_response) \<times> store option" where
  "update_note db note_id payload = handle (update_note_try db note_id payload)"

subsection \<open>The listing's filter in the words of the specification\<close>







subsection \<open>Example data\<close>

text \<open>
  The three notes of the specification's ordering example: A pinned and created at
  5, B unpinned and created at 1, C pinned and created at 2. The example store's
  engine knows one pattern, the dot, which matches a text that has a character
  other than a newline.
\<close>

definition note_A :: doc where
  "note_A = \<lparr>oid = ''0000000000000000000000aa'',
             items = [''title'' \<mapsto> VStr ''A'', ''content'' \<mapsto> VStr ''alpha'',
                      ''tags'' \<mapsto> VList [VStr ''work''], ''is_pinned'' \<mapsto> VBool True,
                      ''created_at'' \<mapsto> VInt 5, ''updated_at'' \<mapsto> VInt 5]\<rparr>"



definition dot_engine :: "string \<Rightarrow> string \<Rightarrow> (string \<Rightarrow> bool) option" where
  "dot_engine p opts =
     (if p = ''.'' then Some (\<lambda>t. list_ex (\<lambda>c. c \<noteq> CHR 0x0A) t) else None)"

definition example_store :: "doc list \<Rightarrow> store" where
  "example_store ds =
     \<lparr>note_collection = ds, collection_names = [''note''], fault = None, regex = dot_engine\<rparr>"

section \<open>Properties\<close>


subsection \<open>Lists of results, and the filter on the identifier\<close>

lemma collect_map_Inr: "collect (map Inr xs) = Inr xs"
  by (induction xs) simp_all


lemma id_filter: "compile_filter s [Field ''_id'' (Eq (VOid i))] = Inr (\<lambda>d. oid d = i)"
  by (simp add: compile_filter_def compile_entry_def compile_field_def compile_cond_def
      eq_match_def doc_get_def fun_eq_iff)

subsection \<open>The health probe\<close>

text \<open>
  Claim C6. \<^verbatim>\<open>GET /test\<close> never raises, whatever the state of the store: the
  handler returns a response for a missing handle, for a reachable store and for a
  store whose \<^verbatim>\<open>list_collection_names\<close> raises. Its field \<^verbatim>\<open>database\<close> is the
  not-connected text, the connected text, or the error text followed by the first 120
  characters of the exception's text, and these three forms differ from one another.
\<close>

theorem test_database_total:
  "\<exists>r. test_database db = Inr r \<and> backend r = check_mark @ '' Running'' \<and>
     (case db of
        None \<Rightarrow> database r = cross_mark @ '' Not Connected'' \<and> collections r = None
      | Some s \<Rightarrow>
          (case fault s of
             None \<Rightarrow> database r = check_mark @ '' Connected'' \<and> collections r = Some (collection_names s)
           | Some msg \<Rightarrow> database r = cross_mark @ '' Error: '' @ take 120 msg \<and> collections r = None))
   \<and> check_mark @ '' Connected'' \<noteq> cross_mark @ '' Not Connected''
   \<and> cross_mark @ '' Error: '' @ msg' \<noteq> check_mark @ '' Connected''
   \<and> cross_mark @ '' Error: '' @ msg' \<noteq> cross_mark @ '' Not Connected''"
proof (cases db)
  case None
  then show ?thesis
    by (simp add: test_database_def check_mark_def cross_mark_def)
next
  case (Some s)
  then show ?thesis
    by (cases "fault s")
      (simp_all add: test_database_def list_collection_names_def check_mark_def cross_mark_def)
qed

subsection \<open>Empty parameters of the listing\<close>

text \<open>
  Claim C10. Listing with \<^verbatim>\<open>tag\<close> equal to the empty string gives the result of
  listing without \<^verbatim>\<open>tag\<close>, and likewise for \<^verbatim>\<open>q\<close>, in every state of the store
  and with any values of the other parameters.
\<close>

theorem empty_string_is_absent:
  "list_notes db (Some '''') q pinned = list_notes db None q pinned \<and>
   list_notes db tag (Some '''') pinned = list_notes db tag None pinned"
  by (simp add: list_notes_def list_notes_try_def filter_dict_def)

subsection \<open>Deleting and updating\<close>

text \<open>
  Claim C8. When \<^verbatim>\<open>ObjectId\<close> rejects the identifier string, \<^verbatim>\<open>delete_note\<close> and
  \<^verbatim>\<open>update_note\<close> fail with status 500, not 404, and leave the store as it was.
\<close>

theorem malformed_id_is_500:
  assumes "ObjectId note_id = Inl e"
  shows "(\<exists>detail. delete_note db note_id = (Inl (HTTPException 500 detail), db)) \<and>
         (\<exists>detail. update_note db note_id payload = (Inl (HTTPException 500 detail), db))"
  using assms
  by (auto simp: delete_note_def delete_note_try_def update_note_def update_note_try_def
      handle_def split: option.splits)


lemma update_one_id:
  "fault s = None \<Longrightarrow> payload ''_id'' = None \<Longrightarrow>
   update_one s [Field ''_id'' (Eq (VOid i))] payload =
     (case List.find (\<lambda>d. oid d = i) (note_collection s) of
        None \<Rightarrow> Inr (0, s)
      | Some d \<Rightarrow> Inr (1, s\<lparr>note_collection :=
                  update_first (\<lambda>d. oid d = i) (set_fields payload) (note_collection s)\<rparr>))"
  by (simp add: update_one_def id_filter changes_id_def split: option.splits)

lemma prepare_payload_id: "prepare_payload payload ''_id'' = None"
  by (simp add: prepare_payload_def)

lemma prepare_payload_strip: "prepare_payload (payload(''_id'' := None)) = prepare_payload payload"
  by (simp add: prepare_payload_def)



lemma oid_set_fields: "oid (set_fields payload d) = oid d"
  by (simp add: set_fields_def)

lemma map_oid_update_first:
  "map oid (update_first p (set_fields payload) xs) = map oid xs"
  by (induction xs) (simp_all add: oid_set_fields)

lemma update_one_oids:
  "update_one s f payload = Inr (n, s') \<Longrightarrow>
   map oid (note_collection s') = map oid (note_collection s)"
  by (auto simp: update_one_def map_oid_update_first split: option.splits sum.splits if_splits)

lemma update_note_try_oids:
  "map_option (\<lambda>s. map oid (note_collection s)) (snd (update_note_try db note_id payload)) =
   map_option (\<lambda>s. map oid (note_collection s)) db"
proof (cases db)
  case None
  then show ?thesis by (simp add: update_note_try_def)
next
  case (Some s)
  show ?thesis
  proof (cases "ObjectId note_id")
    case (Inl e)
    with Some show ?thesis by (simp add: update_note_try_def)
  next
    case (Inr i)
    show ?thesis
    proof (cases "update_one s [Field ''_id'' (Eq (VOid i))] (prepare_payload payload)")
      case (Inl e)
      with Some Inr show ?thesis by (simp add: update_note_try_def)
    next
      case r: (Inr ns)
      obtain n s' where ns: "ns = (n, s')" by (cases ns)
      from r ns have "map oid (note_collection s') = map oid (note_collection s)"
        by (auto dest: update_one_oids)
      with Some Inr r ns show ?thesis by (simp add: update_note_try_def)
    qed
  qed
qed

lemma snd_handle: "snd (handle r) = snd r"
  by (cases r) (auto simp: handle_def split: sum.splits exn.splits)

lemma update_note_try_strip:
  "update_note_try db note_id (payload(''_id'' := None)) = update_note_try db note_id payload"
  by (cases db) (simp_all add: update_note_try_def prepare_payload_strip)

text \<open>
  Claim C7. The payload that reaches the store has no \<^verbatim>\<open>_id\<close> entry; an update
  behaves exactly as the same update without that entry; and whatever the outcome,
  the stored records carry the same identifiers, in the same order, as before.
\<close>

theorem update_keeps_identity:
  "prepare_payload payload ''_id'' = None \<and>
   update_note db note_id payload = update_note db note_id (payload(''_id'' := None)) \<and>
   map_option (\<lambda>s. map oid (note_collection s)) (snd (update_note db note_id payload)) =
     map_option (\<lambda>s. map oid (note_collection s)) db"
  by (simp add: prepare_payload_id update_note_def update_note_try_strip snd_handle
      update_note_try_oids)


lemma find_update_first:
  "List.find p xs = Some d \<Longrightarrow> (\<And>x. p (g x) = p x) \<Longrightarrow>
   List.find p (update_first p g xs) = Some (g d)"
  by (induction xs) (auto split: if_splits)

lemma length_update_first: "length (update_first p g xs) = length xs"
  by (induction xs) simp_all

lemma nth_update_first:
  "n < length xs \<Longrightarrow>
   update_first p g xs ! n = xs ! n \<or> (p (xs ! n) \<and> update_first p g xs ! n = g (xs ! n))"
proof (induction xs arbitrary: n)
  case Nil
  then show ?case by simp
next
  case (Cons x xs)
  then show ?case by (cases n) auto
qed

lemma update_note_success:
  assumes "update_note db note_id payload = (Inr r, db')"
  shows "\<exists>s i d. db = Some s \<and> fault s = None \<and> ObjectId note_id = Inr i \<and>
           List.find (\<lambda>d. oid d = i) (note_collection s) = Some d \<and>
           db' = Some (s\<lparr>note_collection :=
                    update_first (\<lambda>d. oid d = i) (set_fields (prepare_payload payload))
                      (note_collection s)\<rparr>)"
proof (cases db)
  case None
  with assms show ?thesis
    by (simp add: update_note_def update_note_try_def handle_def)
next
  case (Some s)
  show ?thesis
  proof (cases "ObjectId note_id")
    case (Inl e)
    with Some assms show ?thesis
      by (simp add: update_note_def update_note_try_def handle_def)
  next
    case (Inr i)
    show ?thesis
    proof (cases "fault s")
      case (Some msg)
      with \<open>db = Some s\<close> Inr assms show ?thesis
        by (simp add: update_note_def update_note_try_def handle_def update_one_def)
    next
      case None
      show ?thesis
      proof (cases "List.find (\<lambda>d. oid d = i) (note_collection s)")
        case nf: None
        with None \<open>db = Some s\<close> Inr assms show ?thesis
          by (simp add: update_note_def update_note_try_def handle_def update_one_id
              prepare_payload_id)
      next
        case (Some d)
        with None \<open>db = Some s\<close> Inr assms show ?thesis
          by (auto simp: update_note_def update_note_try_def handle_def update_one_id
              prepare_payload_id)
      qed
    qed
  qed
qed

text \<open>
  Claim C4. After a successful update the record with the given identifier has
  \<^verbatim>\<open>updated_at\<close> equal to the value of the payload's \<^verbatim>\<open>updated_at\<close> entry, and null
  when the payload has no such entry. The handler has no clock among its inputs.
\<close>

theorem update_sets_updated_at:
  assumes "update_note db note_id payload = (Inr r, db')"
  shows "\<exists>s s' i d'. db = Some s \<and> db' = Some s' \<and> ObjectId note_id = Inr i \<and>
           List.find (\<lambda>d. oid d = i) (note_collection s') = Some d' \<and>
           doc_get d' ''updated_at'' =
             Some (case payload ''updated_at'' of None \<Rightarrow> VNone | Some v \<Rightarrow> v)"
proof -
  from update_note_success[OF assms] obtain s i d where
    h: "db = Some s" "ObjectId note_id = Inr i"
      "List.find (\<lambda>d. oid d = i) (note_collection s) = Some d"
      "db' = Some (s\<lparr>note_collection :=
                    update_first (\<lambda>d. oid d = i) (set_fields (prepare_payload payload))
                      (note_collection s)\<rparr>)"
    by blast
  have f: "List.find (\<lambda>d. oid d = i)
             (update_first (\<lambda>d. oid d = i) (set_fields (prepare_payload payload)) (note_collection s))
           = Some (set_fields (prepare_payload payload) d)"
    by (rule find_update_first[OF h(3)]) (simp add: oid_set_fields)
  have g: "doc_get (set_fields (prepare_payload payload) d) ''updated_at'' =
             Some (case payload ''updated_at'' of None \<Rightarrow> VNone | Some v \<Rightarrow> v)"
    by (simp add: doc_get_def set_fields_def prepare_payload_def map_add_def)
  from h f g show ?thesis by simp
qed

text \<open>
  Claim C3, amended. A successful update with the payload \<^verbatim>\<open>{"title": new}\<close> gives the
  record with the given identifier the new title; every field of it other than
  \<^verbatim>\<open>title\<close> and \<^verbatim>\<open>updated_at\<close> keeps its value, every other record is untouched,
  and so is the rest of the store.
\<close>

theorem update_title_frame:
  assumes "update_note db note_id [''title'' \<mapsto> VStr new] = (Inr r, db')"
  shows "\<exists>s s' i d'. db = Some s \<and> db' = Some s' \<and> ObjectId note_id = Inr i \<and>
           List.find (\<lambda>d. oid d = i) (note_collection s') = Some d' \<and>
           doc_get d' ''title'' = Some (VStr new) \<and>
           length (note_collection s') = length (note_collection s) \<and>
           (\<forall>n k. n < length (note_collection s) \<and> k \<noteq> ''title'' \<and> k \<noteq> ''updated_at'' \<longrightarrow>
                  doc_get (note_collection s' ! n) k = doc_get (note_collection s ! n) k) \<and>
           (\<forall>n. n < length (note_collection s) \<and> oid (note_collection s ! n) \<noteq> i \<longrightarrow>
                  note_collection s' ! n = note_collection s ! n) \<and>
           collection_names s' = collection_names s \<and> fault s' = fault s"
proof -
  define pl where "pl = prepare_payload [''title'' \<mapsto> VStr new]"
  from update_note_success[OF assms] obtain s i d where
    h: "db = Some s" "ObjectId note_id = Inr i"
      "List.find (\<lambda>d. oid d = i) (note_collection s) = Some d"
      "db' = Some (s\<lparr>note_collection :=
                    update_first (\<lambda>d. oid d = i) (set_fields pl) (note_collection s)\<rparr>)"
    unfolding pl_def by blast
  define ys where "ys = update_first (\<lambda>d. oid d = i) (set_fields pl) (note_collection s)"
  have f: "List.find (\<lambda>d. oid d = i) ys = Some (set_fields pl d)"
    unfolding ys_def by (rule find_update_first[OF h(3)]) (simp add: oid_set_fields)
  have t: "doc_get (set_fields pl d) ''title'' = Some (VStr new)"
    by (simp add: doc_get_def set_fields_def pl_def prepare_payload_def map_add_def)
  have frame: "doc_get (set_fields pl x) k = doc_get x k"
    if "k \<noteq> ''title''" "k \<noteq> ''updated_at''" for x k
    using that by (simp add: doc_get_def set_fields_def pl_def prepare_payload_def map_add_def)
  have len: "length ys = length (note_collection s)"
    unfolding ys_def by (simp add: length_update_first)
  have nth: "ys ! n = note_collection s ! n \<or>
             (oid (note_collection s ! n) = i \<and> ys ! n = set_fields pl (note_collection s ! n))"
    if "n < length (note_collection s)" for n
    unfolding ys_def using nth_update_first[OF that, of "\<lambda>d. oid d = i" "set_fields pl"] by simp
  have a: "doc_get (ys ! n) k = doc_get (note_collection s ! n) k"
    if "n < length (note_collection s)" "k \<noteq> ''title''" "k \<noteq> ''updated_at''" for n k
    using nth[OF that(1)] frame[OF that(2,3)] by auto
  have b: "ys ! n = note_collection s ! n"
    if "n < length (note_collection s)" "oid (note_collection s ! n) \<noteq> i" for n
    using nth[OF that(1)] that(2) by auto
  from h(4) have s': "db' = Some (s\<lparr>note_collection := ys\<rparr>)"
    by (simp add: ys_def)
  show ?thesis
    using h(1,2) s' f t len a b by simp
qed


subsection \<open>The handlers on the example store\<close>

lemma ObjectId_aa: "ObjectId ''0000000000000000000000aa'' = Inr ''0000000000000000000000aa''"
  by (simp add: ObjectId_def is_hex_digit_def lower_def lower_char_def)


lemma ObjectId_abc: "ObjectId ''abc'' = Inl (invalid_id ''abc'')"
  by (simp add: ObjectId_def)

text \<open>The string \<^verbatim>\<open>abc\<close> is not an identifier: both handlers answer 500.\<close>

theorem malformed_id_is_500_witness:
  "ObjectId ''abc'' = Inl (invalid_id ''abc'') \<and>
   (\<exists>detail. delete_note (Some (example_store [note_A])) ''abc'' =
      (Inl (HTTPException 500 detail), Some (example_store [note_A]))) \<and>
   (\<exists>detail. update_note (Some (example_store [note_A])) ''abc'' [''title'' \<mapsto> VStr ''new''] =
      (Inl (HTTPException 500 detail), Some (example_store [note_A])))"
  using ObjectId_abc malformed_id_is_500[OF ObjectId_abc] by simp


lemma update_A_ok:
  "fst (update_note (Some (example_store [note_A])) ''0000000000000000000000aa'' payload) = Inr \<lparr>ok = True\<rparr>"
  by (simp add: update_note_def update_note_try_def handle_def ObjectId_aa update_one_id
      prepare_payload_id example_store_def note_A_def)

text \<open>Updating the colour of note A leaves its \<^verbatim>\<open>updated_at\<close> null.\<close>

theorem update_sets_updated_at_witness:
  "update_note (Some (example_store [note_A])) ''0000000000000000000000aa'' [''color'' \<mapsto> VStr ''red''] =
     (Inr \<lparr>ok = True\<rparr>,
      snd (update_note (Some (example_store [note_A])) ''0000000000000000000000aa'' [''color'' \<mapsto> VStr ''red''])) \<and>
   (\<exists>s' d'. snd (update_note (Some (example_store [note_A])) ''0000000000000000000000aa'' [''color'' \<mapsto> VStr ''red'']) = Some s' \<and>
      List.find (\<lambda>d. oid d = ''0000000000000000000000aa'') (note_collection s') = Some d' \<and>
      doc_get d' ''updated_at'' = Some VNone)"
proof -
  have h: "update_note (Some (example_store [note_A])) ''0000000000000000000000aa'' [''color'' \<mapsto> VStr ''red''] =
     (Inr \<lparr>ok = True\<rparr>,
      snd (update_note (Some (example_store [note_A])) ''0000000000000000000000aa'' [''color'' \<mapsto> VStr ''red'']))"
    using update_A_ok[of "[''color'' \<mapsto> VStr ''red'']"] by (metis prod.collapse)
  show ?thesis
    using h update_sets_updated_at[OF h] ObjectId_aa by auto
qed

text \<open>
  Claim C3 as stated fails: the update of note A with \<^verbatim>\<open>{"title": "new"}\<close> succeeds
  and changes its \<^verbatim>\<open>updated_at\<close> from 5 to null.
\<close>

theorem update_changes_updated_at:
  "fst (update_note (Some (example_store [note_A])) ''0000000000000000000000aa'' [''title'' \<mapsto> VStr ''new'']) =
     Inr \<lparr>ok = True\<rparr> \<and>
   (case snd (update_note (Some (example_store [note_A])) ''0000000000000000000000aa'' [''title'' \<mapsto> VStr ''new'']) of
      Some s' \<Rightarrow> map (\<lambda>d. doc_get d ''updated_at'') (note_collection s')
    | None \<Rightarrow> []) = [Some VNone] \<and>
   map (\<lambda>d. doc_get d ''updated_at'') (note_collection (example_store [note_A])) = [Some (VInt 5)]"
  by (simp add: update_note_def update_note_try_def handle_def ObjectId_aa update_one_id
      prepare_payload_id example_store_def note_A_def doc_get_def set_fields_def
      prepare_payload_def map_add_def)


text \<open>Retitling note A: the hypothesis holds there, and so does the frame.\<close>

theorem update_title_frame_witness:
  "update_note (Some (example_store [note_A])) ''0000000000000000000000aa'' [''title'' \<mapsto> VStr ''new''] =
     (Inr \<lparr>ok = True\<rparr>,
      snd (update_note (Some (example_store [note_A])) ''0000000000000000000000aa'' [''title'' \<mapsto> VStr ''new''])) \<and>
   (\<exists>s' d'. snd (update_note (Some (example_store [note_A])) ''0000000000000000000000aa'' [''title'' \<mapsto> VStr ''new'']) = Some s' \<and>
      List.find (\<lambda>d. oid d = ''0000000000000000000000aa'') (note_collection s') = Some d' \<and>
      doc_get d' ''title'' = Some (VStr ''new'') \<and>
      length (note_collection s') = 1 \<and>
      doc_get (note_collection s' ! 0) ''content'' = Some (VStr ''alpha''))"
proof -
  have h: "update_note (Some (example_store [note_A])) ''0000000000000000000000aa'' [''title'' \<mapsto> VStr ''new''] =
     (Inr \<lparr>ok = True\<rparr>,
      snd (update_note (Some (example_store [note_A])) ''0000000000000000000000aa'' [''title'' \<mapsto> VStr ''new'']))"
    using update_A_ok[of "[''title'' \<mapsto> VStr ''new'']"] by (metis prod.collapse)
  have c: "doc_get (note_collection (example_store [note_A]) ! 0) ''content'' = Some (VStr ''alpha'')"
    by (simp add: example_store_def note_A_def doc_get_def)
  have l: "length (note_collection (example_store [note_A])) = 1"
    by (simp add: example_store_def)
  from update_title_frame[OF h] obtain s' d' where
    r: "snd (update_note (Some (example_store [note_A])) ''0000000000000000000000aa'' [''title'' \<mapsto> VStr ''new'']) = Some s'"
      "List.find (\<lambda>d. oid d = ''0000000000000000000000aa'') (note_collection s') = Some d'"
      "doc_get d' ''title'' = Some (VStr ''new'')"
      "length (note_collection s') = length (note_collection (example_store [note_A]))"
      "\<forall>n k. n < length (note_collection (example_store [note_A])) \<and> k \<noteq> ''title'' \<and> k \<noteq> ''updated_at'' \<longrightarrow>
         doc_get (note_collection s' ! n) k = doc_get (note_collection (example_store [note_A]) ! n) k"
    using ObjectId_aa by auto
  from r(5) l have "doc_get (note_collection s' ! 0) ''content'' =
      doc_get (note_collection (example_store [note_A]) ! 0) ''content''"
    by simp
  with c r(1-4) l h show ?thesis by simp
qed

text \<open>Three states of the store: no handle, a reachable store, an unreachable one.\<close>

theorem test_database_total_witness:
  "(\<exists>r. test_database None = Inr r \<and> database r = cross_mark @ '' Not Connected'') \<and>
   (\<exists>r. test_database (Some (example_store [])) = Inr r \<and>
        database r = check_mark @ '' Connected'' \<and> collections r = Some [''note'']) \<and>
   (\<exists>r. test_database (Some ((example_store [])\<lparr>fault := Some ''timed out''\<rparr>)) = Inr r \<and>
        database r = cross_mark @ '' Error: timed out'')"
  using test_database_total[of None "[]"] test_database_total[of "Some (example_store [])" "[]"]
    test_database_total[of "Some ((example_store [])\<lparr>fault := Some ''timed out''\<rparr>)" "[]"]
  by (auto simp: example_store_def)

text \<open>Note A with an \<^verbatim>\<open>_id\<close> entry in the payload: the entry changes nothing.\<close>

theorem update_keeps_identity_witness:
  "prepare_payload [''_id'' \<mapsto> VStr ''x'', ''title'' \<mapsto> VStr ''new''] ''_id'' = None \<and>
   update_note (Some (example_store [note_A])) ''0000000000000000000000aa''
       [''_id'' \<mapsto> VStr ''x'', ''title'' \<mapsto> VStr ''new''] =
     update_note (Some (example_store [note_A])) ''0000000000000000000000aa''
       ([''_id'' \<mapsto> VStr ''x'', ''title'' \<mapsto> VStr ''new''](''_id'' := None)) \<and>
   map_option (\<lambda>s. map oid (note_collection s))
     (snd (update_note (Some (example_store [note_A])) ''0000000000000000000000aa''
        [''_id'' \<mapsto> VStr ''x'', ''title'' \<mapsto> VStr ''new''])) =
     map_option (\<lambda>s. map oid (note_collection s)) (Some (example_store [note_A]))"
  by (rule update_keeps_identity)

text \<open>The store that holds note A, listed with empty parameters.\<close>

theorem empty_string_is_absent_witness:
  "list_notes (Some (example_store [note_A])) (Some '''') None (Some True) =
     list_notes (Some (example_store [note_A])) None None (Some True) \<and>
   list_notes (Some (example_store [note_A])) (Some ''work'') (Some '''') (Some True) =
     list_notes (Some (example_store [note_A])) (Some ''work'') None (Some True)"
  by (rule empty_string_is_absent)

subsection \<open>Serialization\<close>









subsection \<open>The listing\<close>
























subsection \<open>The order of the listing\<close>















end
